theory Spec2Isabelle
  imports Main
begin

section \<open>Data declared outside router.go\<close>

text \<open>
  Modelled from the spec: the \<open>Method\<close> type. router.go uses the constants \<open>Get\<close>,
  \<open>Post\<close>, \<open>Patch\<close>, \<open>Delete\<close>, \<open>Put\<close>, \<open>Head\<close>, \<open>Options\<close>, \<open>Connect\<close>, \<open>Trace\<close> and
  \<open>method.String()\<close>; the declaration itself is in another file. The spec gives a closed
  set of verbs, each serialising to its wire-protocol token.
\<close>

datatype Method = Get | Post | Put | Patch | Delete | Head | Options | Connect | Trace

fun Method_String :: "Method \<Rightarrow> string" where
  "Method_String Get = ''GET''"
| "Method_String Post = ''POST''"
| "Method_String Put = ''PUT''"
| "Method_String Patch = ''PATCH''"
| "Method_String Delete = ''DELETE''"
| "Method_String Head = ''HEAD''"
| "Method_String Options = ''OPTIONS''"
| "Method_String Connect = ''CONNECT''"
| "Method_String Trace = ''TRACE''"

text \<open>
  A handler is a Go value of type \<open>interface{}\<close>. \<open>createHandlerFunc\<close> looks at it only
  through \<open>reflect\<close>: its dynamic type, the kind of that type, the number of inputs and the
  second input. The types below are the ones the adapter can tell apart; \<open>ContextT\<close> is
  the struct \<open>gin.Context\<close>, so \<open>*gin.Context\<close> is \<open>PtrT ContextT\<close>.
\<close>

datatype Kind = Func | Ptr | Struct | Int_kind | String_kind

datatype gotype =
    ContextT
  | IntT
  | StringT
  | StructT "string list"
  | PtrT gotype
  | FuncT "gotype list"

fun Kind_of :: "gotype \<Rightarrow> Kind" where
  "Kind_of ContextT = Struct"
| "Kind_of IntT = Int_kind"
| "Kind_of StringT = String_kind"
| "Kind_of (StructT fs) = Struct"
| "Kind_of (PtrT t) = Ptr"
| "Kind_of (FuncT ins) = Func"

text \<open>What \<open>%v\<close> prints for a \<open>reflect.Kind\<close>.\<close>

fun Kind_String :: "Kind \<Rightarrow> string" where
  "Kind_String Func = ''func''"
| "Kind_String Ptr = ''ptr''"
| "Kind_String Struct = ''struct''"
| "Kind_String Int_kind = ''int''"
| "Kind_String String_kind = ''string''"

text \<open>
  \<open>NumIn\<close>, \<open>In\<close> and \<open>Elem\<close> panic in Go on a type of the wrong kind. The adapter calls
  \<open>NumIn\<close> only on a function type (the \<open>||\<close> before it short-circuits), \<open>In(1)\<close> only
  on a function of two inputs and \<open>Elem\<close> only on a pointer, so the other equations are
  never reached.
\<close>

fun NumIn :: "gotype \<Rightarrow> nat" where
  "NumIn (FuncT ins) = length ins"
| "NumIn t = 0"

fun In :: "gotype \<Rightarrow> nat \<Rightarrow> gotype" where
  "In (FuncT ins) i = ins ! i"
| "In t i = t"

fun Elem :: "gotype \<Rightarrow> gotype" where
  "Elem (PtrT t) = t"
| "Elem t = t"

text \<open>
  \<open>NilHandler\<close> is the nil interface value; every other handler has an identity (two
  functions of one type are still two handlers) and a dynamic type.
\<close>

datatype handler = NilHandler | Handler string gotype

text \<open>
  Modelled from the spec: the \<open>Route\<close> type and its constructor \<open>NewRoute\<close>, which are
  declared in another file. The spec gives a Route a name, a pattern, a method, a handler
  and an index of named child routes; router.go reads \<open>route.name\<close>, \<open>route.pattern\<close>,
  \<open>route.handler\<close>, \<open>route.method\<close> and builds one with
  \<open>NewRoute(name, pattern, handler, method, map[string]*Route{})\<close>. The field \<open>method\<close>
  is read by \<open>method_of\<close>.
\<close>

datatype Route =
  Route (name: string) (pattern: string) (handler: handler) (method_of: Method)
    (children: "(string \<times> Route) list")

definition NewRoute ::
  "string \<Rightarrow> string \<Rightarrow> handler \<Rightarrow> Method \<Rightarrow> (string \<times> Route) list \<Rightarrow> Route" where
  "NewRoute n p h m cs = Route n p h m cs"

text \<open>
  Modelled from the spec: the \<open>RouteList\<close> type, declared in another file. The spec gives
  it a pattern (a prefix, possibly empty), an ordered collection of routes and an ordered
  collection of child lists; router.go reads \<open>l.pattern\<close>, \<open>l.routes\<close>, \<open>l.children\<close>.
\<close>

datatype RouteList =
  RouteList (l_pattern: string) (l_routes: "Route list") (l_children: "RouteList list")

section \<open>The request context\<close>

text \<open>
  Of \<open>*gin.Context\<close> the router's code uses the path parameters of the matched route
  (through \<open>ShouldBindUri\<close>), \<open>c.Writer.Status()\<close> and \<open>c.JSON\<close>. The body is the list of
  what has been written so far; the response has been started when it is not empty.
\<close>

datatype rendered = JSON_body "(string \<times> string) list" | Plain_body string

record Context =
  params :: "(string \<times> string) list"
  status :: int
  body :: "rendered list"

text \<open>
  \<open>c.JSON(code, obj)\<close>: the status line can be set until the response has been started
  (afterwards the server keeps the status it has sent), and the object is written.
\<close>

definition JSON :: "int \<Rightarrow> (string \<times> string) list \<Rightarrow> Context \<Rightarrow> Context" where
  "JSON code obj c =
     c\<lparr>status := (if 0 < code \<and> body c = [] then code else status c),
       body := body c @ [JSON_body obj]\<rparr>"

type_synonym ErrorHandlerFunc = "Context \<Rightarrow> Context"

section \<open>The underlying server\<close>

text \<open>
  The engine is the external HTTP server. The router's code relies on this much of its
  contract: \<open>Handle\<close> on the engine or on a group registers one (method, absolute path,
  handler) triple, the absolute path being the group's base path joined with the relative
  one; \<open>Group\<close> makes a group whose base path is the engine's (\<open>/\<close>) joined with the
  prefix; \<open>NoRoute\<close> replaces the handler for unmatched paths; \<open>Use\<close> appends a middleware,
  which from then on also runs in front of the unmatched-path handler and in front of
  the handlers registered afterwards: a registration keeps the middlewares its group has at
  that moment. The engine panics on a registration it rejects. The matching of a request
  against the registered paths is left out; a request is served either as one that matches
  no route or as one the engine has matched to a given registration.
\<close>

fun split_slash :: "string \<Rightarrow> string list" where
  "split_slash [] = [[]]"
| "split_slash (c # cs) =
     (if c = CHR ''/'' then [] # split_slash cs
      else (case split_slash cs of
              [] \<Rightarrow> [[c]]
            | w # ws \<Rightarrow> (c # w) # ws))"

fun join_slash :: "string list \<Rightarrow> string" where
  "join_slash [] = []"
| "join_slash [w] = w"
| "join_slash (w # ws) = w @ CHR ''/'' # join_slash ws"

text \<open>
  \<open>path.Clean\<close>: empty and \<open>.\<close> elements go, \<open>..\<close> takes the element before it along (at
  the root it just goes, in a relative path a leading one stays), the empty result is \<open>.\<close>.
  The elements are kept on a stack, the last one first.
\<close>

fun clean_step :: "bool \<Rightarrow> string list \<Rightarrow> string \<Rightarrow> string list" where
  "clean_step rooted stack e =
     (if e = [] \<or> e = ''.'' then stack
      else if e = ''..'' then
        (case stack of
           [] \<Rightarrow> (if rooted then [] else [''..''])
         | t # ts \<Rightarrow> (if t = ''..'' then ''..'' # stack else ts))
      else e # stack)"

definition Clean :: "string \<Rightarrow> string" where
  "Clean p =
     (if p = [] then ''.''
      else
        (let rooted = (hd p = CHR ''/'');
             stack = foldl (clean_step rooted) [] (split_slash p);
             out = (if rooted then ''/'' else []) @ join_slash (rev stack)
         in if out = [] then ''.'' else out))"

text \<open>\<open>path.Join\<close> of two elements.\<close>

definition Join :: "string \<Rightarrow> string \<Rightarrow> string" where
  "Join a b =
     (if a = [] \<and> b = [] then []
      else if a = [] then Clean b
      else Clean (a @ CHR ''/'' # b))"

definition joinPaths :: "string \<Rightarrow> string \<Rightarrow> string" where
  "joinPaths absolutePath relativePath =
     (if relativePath = [] then absolutePath
      else
        (let finalPath = Join absolutePath relativePath
         in if last relativePath = CHR ''/'' \<and> last finalPath \<noteq> CHR ''/''
            then finalPath @ ''/'' else finalPath))"

text \<open>
  The one middleware the router installs is its own \<open>ErrorHandlerMiddleware\<close>; the
  closure reads the router's tables when a request runs, so the engine keeps a tag and the
  dispatch below reads the router of that moment. A registration is kept with the handler
  it was made from; what the engine calls is \<open>createHandlerFunc\<close> of that handler.
\<close>

datatype middleware = ErrorHandlerMW

type_synonym registration = "string \<times> string \<times> middleware list \<times> handler"

record Engine =
  trees :: "registration list"
  noRoute :: "ErrorHandlerFunc list"
  Handlers :: "middleware list"

record RouterGroup =
  basePath :: string
  group_Handlers :: "middleware list"

text \<open>
  Which registrations the engine rejects is its own business: a parameter, the test it
  makes on the registrations it holds, the method and the absolute path.
\<close>

type_synonym rejection = "registration list \<Rightarrow> string \<Rightarrow> string \<Rightarrow> bool"

datatype panic = Rejected string string

text \<open>
  What the engine rejects at the least: a path that an earlier registration of the same
  method has already, also when the two differ only in the names of their placeholders
  (\<open>/users/:id\<close> and \<open>/users/:name\<close>). It stands for the engine in the concrete examples.
\<close>

definition wildcard :: "string \<Rightarrow> bool" where
  "wildcard seg = (seg \<noteq> [] \<and> (hd seg = CHR '':'' \<or> hd seg = CHR ''*''))"

definition conflicting :: "string \<Rightarrow> string \<Rightarrow> bool" where
  "conflicting p q =
     list_all2 (\<lambda>a b. a = b \<or> (wildcard a \<and> wildcard b)) (split_slash p) (split_slash q)"

definition gin_rejects :: rejection where
  "gin_rejects ts m p = list_ex (\<lambda>t. fst t = m \<and> conflicting (fst (snd t)) p) ts"

definition gin_New :: Engine where
  "gin_New = \<lparr>trees = [], noRoute = [], Handlers = []\<rparr>"

definition Group :: "string \<Rightarrow> Engine \<Rightarrow> RouterGroup" where
  "Group relativePath e =
     \<lparr>basePath = joinPaths ''/'' relativePath, group_Handlers = Handlers e\<rparr>"

definition group_Handle ::
  "rejection \<Rightarrow> RouterGroup \<Rightarrow> string \<Rightarrow> string \<Rightarrow> handler \<Rightarrow> Engine \<Rightarrow> panic + Engine" where
  "group_Handle rejects g httpMethod relativePath h e =
     (let absolutePath = joinPaths (basePath g) relativePath
      in if rejects (trees e) httpMethod absolutePath then Inl (Rejected httpMethod absolutePath)
         else Inr (e\<lparr>trees := trees e @ [(httpMethod, absolutePath, group_Handlers g, h)]\<rparr>))"

definition Handle ::
  "rejection \<Rightarrow> string \<Rightarrow> string \<Rightarrow> handler \<Rightarrow> Engine \<Rightarrow> panic + Engine" where
  "Handle rejects httpMethod relativePath h e =
     group_Handle rejects \<lparr>basePath = ''/'', group_Handlers = Handlers e\<rparr>
       httpMethod relativePath h e"

definition NoRoute :: "ErrorHandlerFunc \<Rightarrow> Engine \<Rightarrow> Engine" where
  "NoRoute h e = e\<lparr>noRoute := [h]\<rparr>"

definition Use :: "middleware \<Rightarrow> Engine \<Rightarrow> Engine" where
  "Use m e = e\<lparr>Handlers := Handlers e @ [m]\<rparr>"

section \<open>router.go\<close>

record Router =
  router :: Engine
  routes :: "string \<rightharpoonup> Route"
  middlewares :: "handler list"
  errorHandlers :: "int \<rightharpoonup> ErrorHandlerFunc"
  defaultHandler :: ErrorHandlerFunc

definition NewRouter :: Router where
  "NewRouter =
     \<lparr>router = gin_New,
      routes = Map.empty,
      middlewares = [],
      errorHandlers = Map.empty,
      defaultHandler =
        (\<lambda>c. JSON (status c)
               [(''error'', ''An error occurred''),
                (''description'', ''No specific handler defined for this status'')] c)\<rparr>"

definition SetDefaultErrorHandler :: "ErrorHandlerFunc \<Rightarrow> Router \<Rightarrow> Router" where
  "SetDefaultErrorHandler h r =
     r\<lparr>defaultHandler := h, router := NoRoute h (router r)\<rparr>"

definition GetRoutes :: "Router \<Rightarrow> (string \<rightharpoonup> Route)" where
  "GetRoutes r = routes r"

definition SetErrorHandler :: "int \<Rightarrow> ErrorHandlerFunc \<Rightarrow> Router \<Rightarrow> Router" where
  "SetErrorHandler st h r =
     (let r1 = (if st = 404 then r\<lparr>router := NoRoute h (router r)\<rparr> else r)
      in r1\<lparr>errorHandlers := (errorHandlers r1)(st \<mapsto> h)\<rparr>)"

text \<open>
  The middleware, applied to the rest of the handler chain (\<open>c.Next()\<close>) and the context.
\<close>

definition ErrorHandlerMiddleware ::
  "Router \<Rightarrow> (Context \<Rightarrow> Context) \<Rightarrow> Context \<Rightarrow> Context" where
  "ErrorHandlerMiddleware r next c =
     (let c1 = next c;
          st = status c1
      in if 400 \<le> st then
           (case errorHandlers r st of
              Some h \<Rightarrow> h c1
            | None \<Rightarrow> defaultHandler r c1)
         else c1)"

subsection \<open>The handler adapter\<close>

text \<open>
  What one run of the wrapper does: it calls the handler with some arguments, or it
  completes the response itself, or it panics.
\<close>

datatype arg = ContextArg | BoundArg gotype

datatype dispatch =
    Invoked handler "arg list"
  | Responded Context
  | Panicked string

fun arg_type :: "arg \<Rightarrow> gotype" where
  "arg_type ContextArg = PtrT ContextT"
| "arg_type (BoundArg t) = PtrT t"

text \<open>
  \<open>reflect.Value.Call\<close>: the value must be a function, and the arguments must agree with
  its inputs in number and type.
\<close>

fun reflect_Call :: "handler \<Rightarrow> arg list \<Rightarrow> dispatch" where
  "reflect_Call (Handler n (FuncT ins)) args =
     (if length args < length ins then Panicked ''reflect: Call with too few input arguments''
      else if length ins < length args then
        Panicked ''reflect: Call with too many input arguments''
      else if map arg_type args \<noteq> ins then Panicked ''reflect: Call using wrong type''
      else Invoked (Handler n (FuncT ins)) args)"
| "reflect_Call h args = Panicked ''reflect: call of reflect.Value.Call on non-func Value''"

text \<open>
  \<open>ShouldBindUri\<close> belongs to the server: given the type to fill and the path parameters
  of the request it returns an error or none. It is a parameter here.
\<close>

type_synonym uri_binder = "gotype \<Rightarrow> (string \<times> string) list \<Rightarrow> string option"

fun createHandlerFunc :: "uri_binder \<Rightarrow> handler \<Rightarrow> Context \<Rightarrow> dispatch" where
  "createHandlerFunc ShouldBindUri NilHandler c =
     Panicked ''invalid memory address or nil pointer dereference''"
| "createHandlerFunc ShouldBindUri (Handler n handlerType) c =
     (if Kind_of handlerType \<noteq> Func \<or> NumIn handlerType \<noteq> 2 then
        reflect_Call (Handler n handlerType) [ContextArg]
      else
        (let paramType = In handlerType 1
         in if Kind_of paramType \<noteq> Ptr then
              Panicked (''Handler parameter must be a pointer to a struct, got ''
                        @ Kind_String (Kind_of paramType))
            else
              (let paramElemType = Elem paramType
               in case ShouldBindUri paramElemType (params c) of
                    Some err \<Rightarrow> Responded (JSON 400 [(''error'', err)] c)
                  | None \<Rightarrow>
                      reflect_Call (Handler n handlerType)
                        [ContextArg, BoundArg paramElemType])))"

subsection \<open>Registration\<close>

text \<open>
  A registration that the engine rejects panics; the panic ends the call, and with it the
  calls around it.
\<close>

definition createNativeRoute ::
  "rejection \<Rightarrow> RouterGroup \<Rightarrow> Route \<Rightarrow> Engine \<Rightarrow> panic + Engine" where
  "createNativeRoute rejects g route e =
     group_Handle rejects g (Method_String (method_of route)) (pattern route) (handler route) e"

definition AddRoute ::
  "rejection \<Rightarrow> string \<Rightarrow> string \<Rightarrow> handler \<Rightarrow> Method \<Rightarrow> Router \<Rightarrow> panic + Router" where
  "AddRoute rejects n p h m r =
     (let r1 = r\<lparr>routes := (routes r)(n \<mapsto> NewRoute n p h m [])\<rparr>
      in case Handle rejects (Method_String m) p h (router r1) of
           Inl x \<Rightarrow> Inl x
         | Inr e \<Rightarrow> Inr (r1\<lparr>router := e\<rparr>))"

text \<open>The body of the loop over \<open>l.routes\<close>, and the loop.\<close>

definition add_listed ::
  "rejection \<Rightarrow> RouterGroup option \<Rightarrow> Route \<Rightarrow> Router \<Rightarrow> panic + Router" where
  "add_listed rejects grp route r =
     (case grp of
        Some g \<Rightarrow>
          (case createNativeRoute rejects g route (router r) of
             Inl x \<Rightarrow> Inl x
           | Inr e \<Rightarrow>
               (let r1 = r\<lparr>router := e\<rparr>
                in Inr (r1\<lparr>routes := (routes r1)(name route \<mapsto> route)\<rparr>)))
      | None \<Rightarrow>
          AddRoute rejects (name route) (pattern route) (handler route) (method_of route) r)"

fun add_routes ::
  "rejection \<Rightarrow> RouterGroup option \<Rightarrow> Route list \<Rightarrow> Router \<Rightarrow> panic + Router" where
  "add_routes rejects grp [] r = Inr r"
| "add_routes rejects grp (route # rest) r =
     (case add_listed rejects grp route r of
        Inl x \<Rightarrow> Inl x
      | Inr r1 \<Rightarrow> add_routes rejects grp rest r1)"

text \<open>\<open>AddRouteList\<close>, and its loop over \<open>l.children\<close>.\<close>

fun AddRouteList :: "rejection \<Rightarrow> RouteList \<Rightarrow> Router \<Rightarrow> panic + Router"
  and add_children :: "rejection \<Rightarrow> RouteList list \<Rightarrow> Router \<Rightarrow> panic + Router" where
  "AddRouteList rejects (RouteList pat rts chs) r =
     (let grp = (if pat \<noteq> [] then Some (Group pat (router r)) else None)
      in case add_routes rejects grp rts r of
           Inl x \<Rightarrow> Inl x
         | Inr r1 \<Rightarrow> add_children rejects chs r1)"
| "add_children rejects [] r = Inr r"
| "add_children rejects (child # rest) r =
     (case AddRouteList rejects child r of
        Inl x \<Rightarrow> Inl x
      | Inr r1 \<Rightarrow> add_children rejects rest r1)"

text \<open>
  The tree in the order \<open>AddRouteList\<close> walks it: every route with the pattern of the list
  that owns it, the routes of a list before its children.
\<close>

fun visits :: "RouteList \<Rightarrow> (string \<times> Route) list" where
  "visits (RouteList pat rts chs) = map (Pair pat) rts @ concat (map visits chs)"

text \<open>
  One step of that walk, the walk as a single pass, and what a step that returns leaves
  in the two tables: the registry entry and the engine's registration.
\<close>

definition visit :: "rejection \<Rightarrow> string \<times> Route \<Rightarrow> Router \<Rightarrow> panic + Router" where
  "visit rejects v r =
     add_listed rejects (if fst v \<noteq> [] then Some (Group (fst v) (router r)) else None)
       (snd v) r"

fun visit_all :: "rejection \<Rightarrow> (string \<times> Route) list \<Rightarrow> Router \<Rightarrow> panic + Router" where
  "visit_all rejects [] r = Inr r"
| "visit_all rejects (v # vs) r =
     (case visit rejects v r of
        Inl x \<Rightarrow> Inl x
      | Inr r1 \<Rightarrow> visit_all rejects vs r1)"

definition stored :: "string \<times> Route \<Rightarrow> Route" where
  "stored v =
     (if fst v \<noteq> [] then snd v
      else NewRoute (name (snd v)) (pattern (snd v)) (handler (snd v)) (method_of (snd v)) [])"

definition registered :: "middleware list \<Rightarrow> string \<times> Route \<Rightarrow> registration" where
  "registered ms v =
     (Method_String (method_of (snd v)),
      (if fst v \<noteq> [] then joinPaths (joinPaths ''/'' (fst v)) (pattern (snd v))
       else joinPaths ''/'' (pattern (snd v))),
      ms,
      handler (snd v))"

subsection \<open>URL generation\<close>

text \<open>
  A Go \<open>error\<close>: \<open>errors.New\<close> of a message, or the \<open>MissingParameter\<close> error the spec
  allows the generator to fail with.
\<close>

datatype error = errors_New string | MissingParameter string

text \<open>
  The values of a \<open>map[string]interface{}\<close> and their string form; integers print in
  decimal.
\<close>

datatype pvalue = StringV string | IntV int

definition digit_char :: "nat \<Rightarrow> char" where
  "digit_char d = ''0123456789'' ! d"

function nat_digits :: "nat \<Rightarrow> string" where
  "nat_digits n =
     (if n < 10 then [digit_char n] else nat_digits (n div 10) @ [digit_char (n mod 10)])"
  by pat_completeness auto
termination
  by (relation "measure id") auto

declare nat_digits.simps [simp del]

fun string_form :: "pvalue \<Rightarrow> string" where
  "string_form (StringV s) = s"
| "string_form (IntV i) =
     (if i < 0 then CHR ''-'' # nat_digits (nat (- i)) else nat_digits (nat i))"

text \<open>
  Modelled from the spec: the package-level \<open>GenerateUrlByPattern\<close>, which is defined in
  another file. The spec: substitution scans the pattern for named placeholders
  (\<open>:segmentName\<close> tokens) and replaces each with the string form of
  \<open>params[segmentName]\<close>; no escaping is performed; for a placeholder with no entry the
  design fixes one of two policies, to fail with a \<open>MissingParameter\<close> error or to leave
  the raw token in the output. The policy is a parameter. A token is a path segment that
  begins with a colon, and the rest of the segment is its name.
\<close>

datatype missing_policy = FailMissing | KeepPlaceholder

fun substitute_segment ::
  "missing_policy \<Rightarrow> (string \<rightharpoonup> pvalue) \<Rightarrow> string \<Rightarrow> error + string" where
  "substitute_segment pol ps [] = Inr []"
| "substitute_segment pol ps (c # x) =
     (if c = CHR '':'' then
        (case ps x of
           Some v \<Rightarrow> Inr (string_form v)
         | None \<Rightarrow>
             (case pol of
                FailMissing \<Rightarrow> Inl (MissingParameter x)
              | KeepPlaceholder \<Rightarrow> Inr (c # x)))
      else Inr (c # x))"

fun substitute_all ::
  "missing_policy \<Rightarrow> (string \<rightharpoonup> pvalue) \<Rightarrow> string list \<Rightarrow> error + string list" where
  "substitute_all pol ps [] = Inr []"
| "substitute_all pol ps (s # ss) =
     (case substitute_segment pol ps s of
        Inl e \<Rightarrow> Inl e
      | Inr u \<Rightarrow>
          (case substitute_all pol ps ss of
             Inl e \<Rightarrow> Inl e
           | Inr us \<Rightarrow> Inr (u # us)))"

definition GenerateUrlByPattern ::
  "missing_policy \<Rightarrow> string \<Rightarrow> (string \<rightharpoonup> pvalue) \<Rightarrow> string \<times> error option" where
  "GenerateUrlByPattern pol pat ps =
     (case substitute_all pol ps (split_slash pat) of
        Inl e \<Rightarrow> ([], Some e)
      | Inr us \<Rightarrow> (join_slash us, None))"

text \<open>The method of the same name on the Router, which is in router.go.\<close>

definition Router_GenerateUrlByPattern ::
  "missing_policy \<Rightarrow> Router \<Rightarrow> string \<Rightarrow> (string \<rightharpoonup> pvalue) \<Rightarrow> string \<times> error option" where
  "Router_GenerateUrlByPattern pol r pat ps = GenerateUrlByPattern pol pat ps"

definition GenerateUrlByName ::
  "missing_policy \<Rightarrow> Router \<Rightarrow> string \<Rightarrow> (string \<rightharpoonup> pvalue) \<Rightarrow> string \<times> error option" where
  "GenerateUrlByName pol r n ps =
     (case routes r n of
        None \<Rightarrow> ([], Some (errors_New (''route with name '' @ n @ '' not found'')))
      | Some route \<Rightarrow> Router_GenerateUrlByPattern pol r (pattern route) ps)"

text \<open>
  The spec's words for the result: the pattern with each \<open>:x\<close> replaced by the string
  form of \<open>params[x]\<close>.
\<close>

definition placeholders :: "string \<Rightarrow> string list" where
  "placeholders pat = map tl (filter (\<lambda>seg. seg \<noteq> [] \<and> hd seg = CHR '':'') (split_slash pat))"

definition replace_placeholder :: "(string \<rightharpoonup> pvalue) \<Rightarrow> string \<Rightarrow> string" where
  "replace_placeholder ps seg =
     (if seg \<noteq> [] \<and> hd seg = CHR '':'' then string_form (the (ps (tl seg))) else seg)"

definition pattern_with_params :: "string \<Rightarrow> (string \<rightharpoonup> pvalue) \<Rightarrow> string" where
  "pattern_with_params pat ps = join_slash (map (replace_placeholder ps) (split_slash pat))"

subsection \<open>Serving\<close>

text \<open>
  \<open>Run\<close> installs the unmatched-path handler and the middleware and then hands over to
  the engine's \<open>Run\<close>, which blocks until the listener fails and returns that error. The
  engine's \<open>Run\<close> is a parameter: the error it ends with on an address, if any. \<open>Run\<close> of
  the router has no result, so what it leaves behind is the router.
\<close>

definition Run :: "(string \<Rightarrow> string option) \<Rightarrow> string \<Rightarrow> Router \<Rightarrow> Router" where
  "Run engine_Run addr r =
     (let e1 = (case errorHandlers r 404 of
                  Some h \<Rightarrow> NoRoute h (router r)
                | None \<Rightarrow> NoRoute (JSON 404 [(''error'', ''Custom 404'')]) (router r));
          e2 = Use ErrorHandlerMW e1;
          r1 = r\<lparr>router := e2\<rparr>;
          err = engine_Run addr
      in (case err of
            Some e \<Rightarrow> r1
          | None \<Rightarrow> r1))"

text \<open>
  How the engine answers a request that matches no route: the status is set to 404, the
  middlewares run in front of the unmatched-path handlers, each handler that does not
  call \<open>Next\<close> is followed by the rest of the chain, and when nothing has been written
  under status 404 the engine writes its own text.
\<close>

type_synonym HandlerFunc = "(Context \<Rightarrow> Context) \<Rightarrow> Context \<Rightarrow> Context"

fun run_chain :: "HandlerFunc list \<Rightarrow> Context \<Rightarrow> Context" where
  "run_chain [] c = c"
| "run_chain (h # hs) c = h (run_chain hs) c"

definition plain_handler :: "ErrorHandlerFunc \<Rightarrow> HandlerFunc" where
  "plain_handler h next c = next (h c)"

fun middleware_func :: "Router \<Rightarrow> middleware \<Rightarrow> HandlerFunc" where
  "middleware_func r ErrorHandlerMW = ErrorHandlerMiddleware r"

definition serveNoRoute :: "Router \<Rightarrow> Context \<Rightarrow> Context" where
  "serveNoRoute r c =
     (let chain = map (middleware_func r) (Handlers (router r))
                  @ map plain_handler (noRoute (router r));
          c1 = run_chain chain (c\<lparr>status := 404\<rparr>)
      in if body c1 \<noteq> [] then c1
         else if status c1 = 404 then c1\<lparr>body := [Plain_body ''404 page not found'']\<rparr>
         else c1)"

text \<open>
  How the engine answers a request it has matched to a registration: the middlewares kept
  with the registration run around the wrapper of the handler. What the handler itself
  does to the response when it is called is a parameter. A panic of the wrapper passes
  through the middleware, which has no recovery.
\<close>

type_synonym handler_body = "handler \<Rightarrow> arg list \<Rightarrow> Context \<Rightarrow> Context"

definition wrapper :: "uri_binder \<Rightarrow> handler_body \<Rightarrow> handler \<Rightarrow> Context \<Rightarrow> string + Context" where
  "wrapper ShouldBindUri call h c =
     (case createHandlerFunc ShouldBindUri h c of
        Invoked g args \<Rightarrow> Inr (call g args c)
      | Responded c1 \<Rightarrow> Inr c1
      | Panicked msg \<Rightarrow> Inl msg)"

fun serve_chain ::
  "Router \<Rightarrow> middleware list \<Rightarrow> (Context \<Rightarrow> string + Context) \<Rightarrow> Context \<Rightarrow> string + Context" where
  "serve_chain r [] final c = final c"
| "serve_chain r (ErrorHandlerMW # ms) final c =
     (case serve_chain r ms final c of
        Inl msg \<Rightarrow> Inl msg
      | Inr c1 \<Rightarrow> Inr (ErrorHandlerMiddleware r (\<lambda>c0. c1) c))"

definition serveRegistered ::
  "uri_binder \<Rightarrow> handler_body \<Rightarrow> Router \<Rightarrow> registration \<Rightarrow> Context \<Rightarrow> string + Context" where
  "serveRegistered ShouldBindUri call r reg c =
     serve_chain r (fst (snd (snd reg))) (wrapper ShouldBindUri call (snd (snd (snd reg)))) c"

section \<open>The flattening the spec describes\<close>

text \<open>
  The spec's words: at each node the absolute prefix is the parent's absolute prefix joined
  with the node's prefix, each route of the node gets the node's absolute prefix joined
  with its own pattern, and the children are flattened under the same absolute prefix.
\<close>

fun flatten :: "string \<Rightarrow> RouteList \<Rightarrow> (string \<times> Route) list" where
  "flatten parent (RouteList pat rts chs) =
     map (\<lambda>rt. (joinPaths (joinPaths parent pat) (pattern rt), rt)) rts
     @ concat (map (flatten (joinPaths parent pat)) chs)"

text \<open>A tree in which no list with a prefix of its own has children.\<close>

fun shallow :: "RouteList \<Rightarrow> bool" where
  "shallow (RouteList pat rts chs) = ((pat = [] \<or> chs = []) \<and> list_all shallow chs)"

section \<open>The example of the documentation\<close>

text \<open>
  The doc comment of \<open>AddRouteList\<close> builds a list \<open>lr\<close> with no prefix and a child \<open>v1\<close>
  with the prefix \<open>/v1\<close>, each holding the route \<open>/:locale/products/:id\<close> for one handler
  that takes a pointer to a struct with the fields \<open>locale\<close> and \<open>id\<close>.
\<close>

definition productDetailHandler :: handler where
  "productDetailHandler =
     Handler ''productDetailHandler'' (FuncT [PtrT ContextT, PtrT (StructT [''locale'', ''id''])])"

definition v1 :: RouteList where
  "v1 = RouteList ''/v1''
          [Route ''v1:product'' ''/:locale/products/:id'' productDetailHandler Get []] []"

definition lr :: RouteList where
  "lr = RouteList []
          [Route ''product'' ''/:locale/products/:id'' productDetailHandler Get []] [v1]"

definition fresh :: Context where
  "fresh = \<lparr>params = [], status = 200, body = []\<rparr>"

text \<open>
  Further examples: a handler of the context alone that only sets the status 500, as the
  \<open>/servererror\<close> route of the tests does first; and a list with the prefix \<open>/p\<close> whose
  two routes have one name.
\<close>

definition serverError :: handler where
  "serverError = Handler ''serverError'' (FuncT [PtrT ContextT])"

definition sets_500 :: handler_body where
  "sets_500 h args c = c\<lparr>status := 500\<rparr>"

definition custom_500 :: ErrorHandlerFunc where
  "custom_500 = JSON 500 [(''error'', ''Custom 500'')]"

text \<open>
  The router after \<open>SetErrorHandler(500, ...)\<close> and \<open>AddRoute\<close> of \<open>/servererror\<close>, as
  \<open>Run\<close> finds it.
\<close>

definition configured :: Router where
  "configured =
     projr (AddRoute gin_rejects ''servererror'' ''/servererror'' serverError Get
              (SetErrorHandler 500 custom_500 NewRouter))"

definition same_name :: RouteList where
  "same_name = RouteList ''/p''
                 [Route ''n'' ''/a'' serverError Get [], Route ''n'' ''/b'' serverError Get []] []"

section \<open>The walk of AddRouteList\<close>

text \<open>What one step leaves behind when it returns.\<close>

lemma visit_Inr:
  assumes "visit rejects v r = Inr r1"
  shows "routes r1 = (routes r)(name (snd v) \<mapsto> stored v)"
    and "trees (router r1) = trees (router r) @ [registered (Handlers (router r)) v]"
    and "Handlers (router r1) = Handlers (router r)"
  using assms
  by (auto simp: visit_def stored_def registered_def add_listed_def AddRoute_def Let_def
      Handle_def group_Handle_def createNativeRoute_def Group_def
      split: if_splits sum.splits)

lemma add_routes_visits:
  "Handlers (router r0) = Handlers (router r) \<Longrightarrow>
   add_routes rejects (if pat \<noteq> [] then Some (Group pat (router r0)) else None) rts r
     = visit_all rejects (map (Pair pat) rts) r"
proof (induction rts arbitrary: r)
  case Nil
  then show ?case by simp
next
  case (Cons rt rts)
  have same_group: "Group pat (router r0) = Group pat (router r)"
    using Cons.prems by (simp add: Group_def)
  have step: "add_listed rejects (if pat \<noteq> [] then Some (Group pat (router r0)) else None) rt r
                = visit rejects (pat, rt) r"
    by (simp add: visit_def same_group)
  show ?case
  proof (cases "visit rejects (pat, rt) r")
    case (Inl x)
    with step show ?thesis by simp
  next
    case (Inr r1)
    then have "Handlers (router r0) = Handlers (router r1)"
      using Cons.prems visit_Inr(3) by simp
    then have "add_routes rejects (if pat \<noteq> [] then Some (Group pat (router r0)) else None) rts r1
                 = visit_all rejects (map (Pair pat) rts) r1"
      by (rule Cons.IH)
    with step Inr show ?thesis by simp
  qed
qed

lemma visit_all_append:
  "visit_all rejects (xs @ ys) r =
     (case visit_all rejects xs r of
        Inl x \<Rightarrow> Inl x
      | Inr r1 \<Rightarrow> visit_all rejects ys r1)"
  by (induction xs arbitrary: r) (simp_all split: sum.splits)

text \<open>The recursion over the tree is a single pass over \<open>visits\<close>.\<close>

lemma AddRouteList_visits:
  "AddRouteList rejects l r = visit_all rejects (visits l) r"
  "add_children rejects chs r = visit_all rejects (concat (map visits chs)) r"
proof (induction rejects l r and rejects chs r rule: AddRouteList_add_children.induct)
  case (1 rejects pat rts chs r)
  have own: "add_routes rejects (if pat \<noteq> [] then Some (Group pat (router r)) else None) rts r
               = visit_all rejects (map (Pair pat) rts) r"
    by (rule add_routes_visits) simp
  show ?case
  proof (cases "visit_all rejects (map (Pair pat) rts) r")
    case (Inl x)
    with own show ?thesis by (simp add: visit_all_append)
  next
    case (Inr r1)
    with own "1.IH" [of "if pat \<noteq> [] then Some (Group pat (router r)) else None" r1]
    show ?thesis by (simp add: visit_all_append)
  qed
next
  case (2 rejects r)
  then show ?case by simp
next
  case (3 rejects child rest r)
  show ?case
  proof (cases "visit_all rejects (visits child) r")
    case (Inl x)
    with "3.IH"(1) show ?thesis by (simp add: visit_all_append)
  next
    case (Inr r1)
    with "3.IH" show ?thesis by (simp add: visit_all_append)
  qed
qed

lemma visit_all_Inr:
  "visit_all rejects vs r = Inr r1 \<Longrightarrow>
   trees (router r1) = trees (router r) @ map (registered (Handlers (router r))) vs
   \<and> Handlers (router r1) = Handlers (router r)"
proof (induction vs arbitrary: r)
  case Nil
  then show ?case by simp
next
  case (Cons v vs)
  from Cons.prems obtain r2 where first: "visit rejects v r = Inr r2"
    and rest: "visit_all rejects vs r2 = Inr r1"
    by (auto split: sum.splits)
  from Cons.IH [OF rest] visit_Inr(2,3) [OF first] show ?case by simp
qed

lemma routes_visit_all_other:
  "visit_all rejects vs r = Inr r1 \<Longrightarrow> \<forall>v \<in> set vs. name (snd v) \<noteq> n \<Longrightarrow>
   routes r1 n = routes r n"
proof (induction vs arbitrary: r)
  case Nil
  then show ?case by simp
next
  case (Cons v vs)
  from Cons.prems(1) obtain r2 where first: "visit rejects v r = Inr r2"
    and rest: "visit_all rejects vs r2 = Inr r1"
    by (auto split: sum.splits)
  have "routes r1 n = routes r2 n"
    using rest Cons.prems(2) by (intro Cons.IH) simp_all
  with visit_Inr(1) [OF first] Cons.prems(2) show ?case by auto
qed

lemma routes_visit_all_last:
  assumes "visit_all rejects (before @ v # after) r = Inr r1"
    and "\<forall>w \<in> set after. name (snd w) \<noteq> name (snd v)"
  shows "routes r1 (name (snd v)) = Some (stored v)"
proof -
  from assms(1) obtain r2 where "visit_all rejects (v # after) r2 = Inr r1"
    by (auto simp: visit_all_append split: sum.splits)
  then obtain r3 where own: "visit rejects v r2 = Inr r3"
    and rest: "visit_all rejects after r3 = Inr r1"
    by (auto split: sum.splits)
  have "routes r1 (name (snd v)) = routes r3 (name (snd v))"
    using rest assms(2) by (rule routes_visit_all_other)
  with visit_Inr(1) [OF own] show ?thesis by simp
qed

text \<open>
  Every route is registered under the prefix of the list that owns it, joined with its own
  pattern, whatever lists stand above that one in the tree.
\<close>

lemma AddRouteList_trees:
  "AddRouteList rejects l r = Inr r1 \<Longrightarrow>
   trees (router r1) = trees (router r) @ map (registered (Handlers (router r))) (visits l)"
  by (simp add: AddRouteList_visits visit_all_Inr)


text \<open>
  So the registered paths are those of the spec's flattening as long as no list with a
  prefix has children, as in the documented example: an empty root above prefixed lists.
\<close>

lemma one_level_prefix_composed:
  "shallow l \<Longrightarrow> map (\<lambda>v. fst (snd (registered ms v))) (visits l) = map fst (flatten ''/'' l)"
proof (induction l)
  case (RouteList pat rts chs)
  have own: "map (\<lambda>v. fst (snd (registered ms v))) (map (Pair pat) rts)
               = map fst (map (\<lambda>rt. (joinPaths (joinPaths ''/'' pat) (pattern rt), rt)) rts)"
    by (simp add: registered_def joinPaths_def)
  have below: "map (\<lambda>v. fst (snd (registered ms v))) (concat (map visits chs))
                 = map fst (concat (map (flatten (joinPaths ''/'' pat)) chs))"
  proof (cases "chs = []")
    case True
    then show ?thesis by simp
  next
    case False
    with RouteList.prems have root: "joinPaths ''/'' pat = ''/''"
      by (simp add: joinPaths_def)
    have "\<forall>c \<in> set chs. map (\<lambda>v. fst (snd (registered ms v))) (visits c) = map fst (flatten ''/'' c)"
      using RouteList.IH RouteList.prems by (simp add: list_all_iff)
    then show ?thesis
      unfolding root by (induction chs) simp_all
  qed
  from own below show ?case by simp
qed

text \<open>Whatever the listener reports, \<open>Run\<close> leaves the same router behind.\<close>

lemma Run_effect:
  "Run l addr r =
     r\<lparr>router := Use ErrorHandlerMW
         (NoRoute (case errorHandlers r 404 of
                     Some h \<Rightarrow> h
                   | None \<Rightarrow> JSON 404 [(''error'', ''Custom 404'')]) (router r))\<rparr>"
  by (simp add: Run_def Let_def split: option.splits)

section \<open>Requests that match no route\<close>

text \<open>
  Before \<open>Run\<close>, with no middleware in the engine, a handler set for 404 answers the
  unmatched request alone, provided it writes something.
\<close>

lemma specific_404_answers_before_Run:
  "Handlers (router r) = [] \<Longrightarrow> body (h (c\<lparr>status := 404\<rparr>)) \<noteq> [] \<Longrightarrow>
   serveNoRoute (SetErrorHandler 404 h r) c = h (c\<lparr>status := 404\<rparr>)"
  by (simp add: serveNoRoute_def SetErrorHandler_def NoRoute_def plain_handler_def Let_def)

text \<open>
  A new router has no handler for unmatched paths: its initial default handler is not
  installed with the engine, which answers with its own text.
\<close>

lemma unmatched_on_new_router:
  "serveNoRoute NewRouter fresh
     = \<lparr>params = [], status = 404, body = [Plain_body ''404 page not found'']\<rparr>"
  by (simp add: serveNoRoute_def NewRouter_def gin_New_def fresh_def)

text \<open>
  After \<open>Run\<close> the handler set for 404 runs twice on an unmatched request: once as the
  engine's unmatched-path handler and once more from the middleware, which finds the status
  404 and the same handler in its table.
\<close>

lemma specific_404_runs_twice_after_Run:
  "serveNoRoute
       (Run l addr (SetErrorHandler 404 (JSON 404 [(''error'', ''Custom 404'')]) NewRouter)) fresh
     = \<lparr>params = [], status = 404,
        body = [JSON_body [(''error'', ''Custom 404'')], JSON_body [(''error'', ''Custom 404'')]]\<rparr>"
  by (simp add: Run_effect SetErrorHandler_def NewRouter_def gin_New_def NoRoute_def
      Use_def serveNoRoute_def plain_handler_def ErrorHandlerMiddleware_def JSON_def Let_def
      fresh_def)

section \<open>Evaluation of the path join and of the string form\<close>

lemma joinPaths_v1: "joinPaths ''/'' ''/v1'' = ''/v1''"
  by (simp add: joinPaths_def Join_def Clean_def)

lemma joinPaths_v1_x: "joinPaths ''/v1'' ''/x'' = ''/v1/x''"
  by (simp add: joinPaths_def Join_def Clean_def)

lemma joinPaths_api: "joinPaths ''/'' ''/api'' = ''/api''"
  by (simp add: joinPaths_def Join_def Clean_def)

lemma joinPaths_api_v1: "joinPaths ''/api'' ''/v1'' = ''/api/v1''"
  by (simp add: joinPaths_def Join_def Clean_def)

lemma joinPaths_api_v1_x: "joinPaths ''/api/v1'' ''/x'' = ''/api/v1/x''"
  by (simp add: joinPaths_def Join_def Clean_def)

lemma joinPaths_product:
  "joinPaths ''/'' ''/:locale/products/:id'' = ''/:locale/products/:id''"
  by (simp add: joinPaths_def Join_def Clean_def)

lemma joinPaths_v1_product:
  "joinPaths ''/v1'' ''/:locale/products/:id'' = ''/v1/:locale/products/:id''"
  by (simp add: joinPaths_def Join_def Clean_def)

lemma joinPaths_users_id: "joinPaths ''/'' ''/users/:id'' = ''/users/:id''"
  by (simp add: joinPaths_def Join_def Clean_def)

lemma joinPaths_users_name: "joinPaths ''/'' ''/users/:name'' = ''/users/:name''"
  by (simp add: joinPaths_def Join_def Clean_def)

lemma joinPaths_users_id_edit: "joinPaths ''/'' ''/users/:id/edit'' = ''/users/:id/edit''"
  by (simp add: joinPaths_def Join_def Clean_def)

lemma joinPaths_servererror: "joinPaths ''/'' ''/servererror'' = ''/servererror''"
  by (simp add: joinPaths_def Join_def Clean_def)

lemma joinPaths_p: "joinPaths ''/'' ''/p'' = ''/p''"
  by (simp add: joinPaths_def Join_def Clean_def)

lemma joinPaths_p_a: "joinPaths ''/p'' ''/a'' = ''/p/a''"
  by (simp add: joinPaths_def Join_def Clean_def)

lemma joinPaths_p_b: "joinPaths ''/p'' ''/b'' = ''/p/b''"
  by (simp add: joinPaths_def Join_def Clean_def)

lemma conflicting_users: "conflicting ''/users/:id'' ''/users/:name''"
  by (simp add: conflicting_def wildcard_def)

lemma not_conflicting_users_edit: "\<not> conflicting ''/users/:id'' ''/users/:id/edit''"
  by (simp add: conflicting_def wildcard_def)

lemma not_conflicting_p: "\<not> conflicting ''/p/a'' ''/p/b''"
  by (simp add: conflicting_def wildcard_def)

lemma not_conflicting_product:
  "\<not> conflicting ''/:locale/products/:id'' ''/v1/:locale/products/:id''"
  by (simp add: conflicting_def wildcard_def)

lemma nat_digits_42: "nat_digits 42 = ''42''"
  by (simp add: nat_digits.simps digit_char_def)

lemma GenerateUrlByPattern_product:
  "GenerateUrlByPattern pol ''/:locale/products/:id''
     [''locale'' \<mapsto> StringV ''cs'', ''id'' \<mapsto> IntV 42] = (''/cs/products/42'', None)"
  by (simp add: GenerateUrlByPattern_def nat_digits_42)

section \<open>The handler adapter\<close>

text \<open>
  A handler of two inputs whose second input is not a pointer stops every dispatch with the
  panic of the source.
\<close>

lemma non_pointer_parameter_panics:
  "Kind_of t \<noteq> Ptr \<Longrightarrow>
   createHandlerFunc ShouldBindUri (Handler n (FuncT [a, t])) c
     = Panicked (''Handler parameter must be a pointer to a struct, got ''
                 @ Kind_String (Kind_of t))"
  by simp

text \<open>A handler of one input, the context, is called with the context alone.\<close>

lemma context_only_handler_invoked:
  "createHandlerFunc ShouldBindUri (Handler n (FuncT [PtrT ContextT])) c
     = Invoked (Handler n (FuncT [PtrT ContextT])) [ContextArg]"
  by simp

text \<open>
  A handler of two inputs, the context and a pointer, is called with both once the path
  parameters have been bound.
\<close>

lemma bound_handler_invoked:
  "ShouldBindUri t (params c) = None \<Longrightarrow>
   createHandlerFunc ShouldBindUri (Handler n (FuncT [PtrT ContextT, PtrT t])) c
     = Invoked (Handler n (FuncT [PtrT ContextT, PtrT t])) [ContextArg, BoundArg t]"
  by simp

section \<open>URL generation\<close>

lemma substitute_all_supplied:
  "\<forall>seg \<in> set segs. seg \<noteq> [] \<and> hd seg = CHR '':'' \<longrightarrow> ps (tl seg) \<noteq> None \<Longrightarrow>
   substitute_all pol ps segs = Inr (map (replace_placeholder ps) segs)"
proof (induction segs)
  case Nil
  then show ?case by simp
next
  case (Cons s ss)
  then have rest: "substitute_all pol ps ss = Inr (map (replace_placeholder ps) ss)"
    by simp
  have "substitute_segment pol ps s = Inr (replace_placeholder ps s)"
  proof (cases s)
    case Nil
    then show ?thesis by (simp add: replace_placeholder_def)
  next
    case (Cons c x)
    with Cons.prems show ?thesis
      by (auto simp: replace_placeholder_def)
  qed
  with rest show ?case by simp
qed


section \<open>Registered routes and the middleware\<close>

text \<open>\<open>Run\<close> changes nothing in the registrations, so none of them gains the middleware.\<close>

lemma Run_keeps_trees: "trees (router (Run l addr r)) = trees (router r)"
  by (simp add: Run_effect Use_def NoRoute_def)

text \<open>
  A registration made while the engine had no middleware is served by the wrapper alone:
  no error handler of the router is called, whatever its tables hold.
\<close>

lemma served_without_middleware:
  "serveRegistered ShouldBindUri call r (m, p, [], h) c = wrapper ShouldBindUri call h c"
  by (simp add: serveRegistered_def)

text \<open>What the middleware does with what the rest of the chain leaves.\<close>

lemma ErrorHandlerMiddleware_after_next:
  "(400 \<le> status (next c) \<and> errorHandlers r (status (next c)) = Some h
      \<longrightarrow> ErrorHandlerMiddleware r next c = h (next c))
   \<and> (400 \<le> status (next c) \<and> errorHandlers r (status (next c)) = None
      \<longrightarrow> ErrorHandlerMiddleware r next c = defaultHandler r (next c))
   \<and> (status (next c) < 400 \<longrightarrow> ErrorHandlerMiddleware r next c = next c)"
  by (simp add: ErrorHandlerMiddleware_def Let_def)

section \<open>Registrations the engine rejects\<close>

lemma AddRoute_rejected:
  "rejects (trees (router r)) (Method_String m) (joinPaths ''/'' p) \<Longrightarrow>
   AddRoute rejects n p h m r = Inl (Rejected (Method_String m) (joinPaths ''/'' p))"
  by (simp add: AddRoute_def Handle_def group_Handle_def Let_def)

lemma AddRoute_accepted:
  "\<not> rejects (trees (router r)) (Method_String m) (joinPaths ''/'' p) \<Longrightarrow>
   AddRoute rejects n p h m r =
     Inr (r\<lparr>routes := (routes r)(n \<mapsto> NewRoute n p h m []),
            router := (router r)\<lparr>trees := trees (router r)
              @ [(Method_String m, joinPaths ''/'' p, Handlers (router r), h)]\<rparr>\<rparr>)"
  by (simp add: AddRoute_def Handle_def group_Handle_def Let_def)

section \<open>The claims\<close>

text \<open>
  C1, at the input where the code leaves the claim. The claim: a route nested k levels deep
  is registered under the join of all k ancestor prefixes, root first, and its own
  pattern. For the list \<open>/api\<close> with the child list \<open>/v1\<close> that owns the route \<open>/x\<close>, the
  walk returns with the single registration \<open>/v1/x\<close>: the child is added by a fresh call
  that starts at the engine's root, so the prefix \<open>/api\<close> is lost. The flattening of the
  spec gives \<open>/api/v1/x\<close>.
\<close>

theorem nested_prefix_not_composed:
  "AddRouteList gin_rejects
       (RouteList ''/api'' [] [RouteList ''/v1'' [Route ''x'' ''/x'' h Get []] []]) NewRouter
     = Inr (NewRouter
         \<lparr>router := gin_New\<lparr>trees := [(''GET'', ''/v1/x'', [], h)]\<rparr>,
          routes := [''x'' \<mapsto> Route ''x'' ''/x'' h Get []]\<rparr>)
   \<and> map fst (flatten ''/''
       (RouteList ''/api'' [] [RouteList ''/v1'' [Route ''x'' ''/x'' h Get []] []]))
     = [''/api/v1/x'']"
  by (simp add: add_listed_def createNativeRoute_def group_Handle_def Group_def gin_rejects_def
      NewRouter_def gin_New_def Let_def
      joinPaths_v1 joinPaths_v1_x joinPaths_api joinPaths_api_v1 joinPaths_api_v1_x)

text \<open>
  C2: for a registered name and parameters that supply every placeholder of the route's
  pattern, \<open>GenerateUrlByName\<close> returns no error and the pattern with each placeholder
  replaced by the string form of its parameter. The lookup and the delegation are the
  code of router.go; the substitution is the generator described by the spec, under
  either policy for a missing parameter.
\<close>

theorem GenerateUrlByName_substitutes:
  assumes "routes r n = Some route"
    and "\<forall>x \<in> set (placeholders (pattern route)). ps x \<noteq> None"
  shows "GenerateUrlByName pol r n ps = (pattern_with_params (pattern route) ps, None)"
proof -
  have "\<forall>seg \<in> set (split_slash (pattern route)).
          seg \<noteq> [] \<and> hd seg = CHR '':'' \<longrightarrow> ps (tl seg) \<noteq> None"
    using assms(2) by (auto simp: placeholders_def)
  then have "substitute_all pol ps (split_slash (pattern route))
               = Inr (map (replace_placeholder ps) (split_slash (pattern route)))"
    by (rule substitute_all_supplied)
  with assms(1) show ?thesis
    by (simp add: GenerateUrlByName_def Router_GenerateUrlByPattern_def
        GenerateUrlByPattern_def pattern_with_params_def)
qed

theorem GenerateUrlByName_substitutes_witness:
  "placeholders ''/:locale/products/:id'' = [''locale'', ''id'']
   \<and> GenerateUrlByName FailMissing
        (projr (AddRoute gin_rejects ''product'' ''/:locale/products/:id'' productDetailHandler
                  Get NewRouter))
        ''product'' [''locale'' \<mapsto> StringV ''cs'', ''id'' \<mapsto> IntV 42]
      = (''/cs/products/42'', None)"
proof -
  have added: "AddRoute gin_rejects ''product'' ''/:locale/products/:id'' productDetailHandler
                 Get NewRouter
      = Inr (NewRouter\<lparr>routes := (routes NewRouter)(''product'' \<mapsto>
               NewRoute ''product'' ''/:locale/products/:id'' productDetailHandler Get []),
             router := (router NewRouter)\<lparr>trees := trees (router NewRouter)
               @ [(Method_String Get, joinPaths ''/'' ''/:locale/products/:id'',
                   Handlers (router NewRouter), productDetailHandler)]\<rparr>\<rparr>)"
    by (rule AddRoute_accepted) (simp add: gin_rejects_def NewRouter_def gin_New_def)
  show ?thesis
    using GenerateUrlByName_substitutes
      [of "projr (AddRoute gin_rejects ''product'' ''/:locale/products/:id''
                    productDetailHandler Get NewRouter)"
          "''product''"
          "Route ''product'' ''/:locale/products/:id'' productDetailHandler Get []"
          "[''locale'' \<mapsto> StringV ''cs'', ''id'' \<mapsto> IntV 42]" FailMissing]
    by (simp add: added NewRoute_def placeholders_def pattern_with_params_def
        replace_placeholder_def nat_digits_42)
qed

text \<open>
  C3: a handler of two inputs whose second input is a pointer (to a struct, or to anything
  else), and a request whose path parameters do not bind: the wrapper answers with
  \<open>c.JSON(400, {"error": err})\<close>, where \<open>err\<close> is the text of the binding error, and does
  not call the handler. The status of the response is 400 when nothing had been written
  before.
\<close>

theorem decode_failure_short_circuits:
  assumes "ShouldBindUri t (params c) = Some err"
  shows "createHandlerFunc ShouldBindUri (Handler n (FuncT [a, PtrT t])) c
           = Responded (JSON 400 [(''error'', err)] c)
         \<and> (\<forall>args. createHandlerFunc ShouldBindUri (Handler n (FuncT [a, PtrT t])) c
                \<noteq> Invoked (Handler n (FuncT [a, PtrT t])) args)
         \<and> body (JSON 400 [(''error'', err)] c) = body c @ [JSON_body [(''error'', err)]]
         \<and> (body c = [] \<longrightarrow> status (JSON 400 [(''error'', err)] c) = 400)"
  using assms by (simp add: JSON_def)

theorem decode_failure_short_circuits_witness:
  "createHandlerFunc (\<lambda>t ps. Some ''id is required'') productDetailHandler fresh
     = Responded \<lparr>params = [], status = 400,
                  body = [JSON_body [(''error'', ''id is required'')]]\<rparr>"
  using decode_failure_short_circuits
    [of "\<lambda>t ps. Some ''id is required''" "StructT [''locale'', ''id'']" fresh
        "''id is required''" "''productDetailHandler''" "PtrT ContextT"]
  by (simp add: productDetailHandler_def fresh_def JSON_def)

text \<open>
  C4, at the input where the code leaves the claim. The claim: for every completed request
  the middleware runs after the route handler and calls the handler registered for a final
  status of 400 or above. The router is given a handler for 500 and the route
  \<open>/servererror\<close>, and then \<open>Run\<close> is called. \<open>Run\<close> installs the middleware with \<open>Use\<close>
  only then, and a registration keeps the middlewares of the moment it was made: the route
  is registered with none, \<open>Run\<close> does not change that, and a request to it whose handler
  sets the status 500 is answered with that status and nothing else; the handler for 500
  is not called. The last line is what the middleware would have done with the same
  response.
\<close>

theorem middleware_misses_registered_routes:
  "AddRoute gin_rejects ''servererror'' ''/servererror'' serverError Get
       (SetErrorHandler 500 custom_500 NewRouter) = Inr configured
   \<and> errorHandlers (Run l addr configured) 500 = Some custom_500
   \<and> Handlers (router (Run l addr configured)) = [ErrorHandlerMW]
   \<and> trees (router (Run l addr configured)) = [(''GET'', ''/servererror'', [], serverError)]
   \<and> serveRegistered ShouldBindUri sets_500 (Run l addr configured)
        (''GET'', ''/servererror'', [], serverError) fresh
      = Inr \<lparr>params = [], status = 500, body = []\<rparr>
   \<and> ErrorHandlerMiddleware (Run l addr configured) (sets_500 serverError [ContextArg]) fresh
      = \<lparr>params = [], status = 500, body = [JSON_body [(''error'', ''Custom 500'')]]\<rparr>"
proof -
  have added: "AddRoute gin_rejects ''servererror'' ''/servererror'' serverError Get
                 (SetErrorHandler 500 custom_500 NewRouter) = Inr configured"
    by (simp add: configured_def AddRoute_def Handle_def group_Handle_def gin_rejects_def
        SetErrorHandler_def NewRouter_def gin_New_def Let_def)
  have state: "configured =
      NewRouter\<lparr>errorHandlers := [500 \<mapsto> custom_500],
                routes := [''servererror'' \<mapsto>
                  Route ''servererror'' ''/servererror'' serverError Get []],
                router := gin_New\<lparr>trees := [(''GET'', ''/servererror'', [], serverError)]\<rparr>\<rparr>"
    by (simp add: configured_def AddRoute_def Handle_def group_Handle_def gin_rejects_def
        SetErrorHandler_def NewRouter_def NewRoute_def gin_New_def Let_def
        joinPaths_servererror)
  have served: "serveRegistered ShouldBindUri sets_500 (Run l addr configured)
        (''GET'', ''/servererror'', [], serverError) fresh
      = Inr \<lparr>params = [], status = 500, body = []\<rparr>"
    by (simp add: serveRegistered_def wrapper_def serverError_def sets_500_def fresh_def)
  have wanted: "ErrorHandlerMiddleware (Run l addr configured)
        (sets_500 serverError [ContextArg]) fresh
      = \<lparr>params = [], status = 500, body = [JSON_body [(''error'', ''Custom 500'')]]\<rparr>"
    by (simp add: ErrorHandlerMiddleware_def Run_effect state custom_500_def sets_500_def
        fresh_def JSON_def Let_def)
  show ?thesis
    using added served wanted
    by (simp add: Run_keeps_trees Run_effect Use_def NoRoute_def state gin_New_def)
qed

text \<open>
  C5, at the input where the code leaves the claim. The claim: with no handler set for 404,
  a request to an unmatched path is answered by the handler given to
  \<open>SetDefaultErrorHandler\<close>. \<open>SetDefaultErrorHandler\<close> does install its handler for
  unmatched paths, but \<open>Run\<close> then replaces it, for every such handler \<open>d\<close>, with a
  responder of its own that writes \<open>{"error": "Custom 404"}\<close>; the default handler only
  runs afterwards, from the middleware, on a response that has already been written.
\<close>

theorem default_handler_replaced_by_Run:
  "noRoute (router (Run l addr (SetDefaultErrorHandler d NewRouter)))
     = [JSON 404 [(''error'', ''Custom 404'')]]
   \<and> serveNoRoute
       (Run l addr (SetDefaultErrorHandler (JSON 404 [(''error'', ''mine'')]) NewRouter)) fresh
     = \<lparr>params = [], status = 404,
        body = [JSON_body [(''error'', ''Custom 404'')], JSON_body [(''error'', ''mine'')]]\<rparr>"
  by (simp add: Run_effect SetDefaultErrorHandler_def NewRouter_def gin_New_def NoRoute_def
      Use_def serveNoRoute_def plain_handler_def ErrorHandlerMiddleware_def JSON_def Let_def
      fresh_def)

text \<open>
  C6, at every input. The claim: when the listener fails, \<open>Run\<close> returns or logs the
  error. \<open>Run\<close> has no result and writes nothing; what it leaves behind is the same
  whatever the listener reports, so the error reaches nobody.
\<close>

theorem Run_discards_listener_error:
  "Run (\<lambda>a. Some e) addr r = Run (\<lambda>a. None) addr r"
  by (simp add: Run_def Let_def)

text \<open>
  C7, as amended: two calls of \<open>AddRoute\<close> with one name, each with a registration that
  the engine accepts. Both calls return the router; afterwards the registry holds, under
  that name, the Route of the second call, and is otherwise as before; both patterns have
  been registered with the engine, in order; nothing else of the router has changed.
\<close>

theorem AddRoute_last_write_wins:
  assumes "\<not> rejects (trees (router r)) (Method_String m1) (joinPaths ''/'' p1)"
    and "\<not> rejects
           (trees (router r) @ [(Method_String m1, joinPaths ''/'' p1, Handlers (router r), h1)])
           (Method_String m2) (joinPaths ''/'' p2)"
  shows "\<exists>r1 r2. AddRoute rejects n p1 h1 m1 r = Inr r1
           \<and> AddRoute rejects n p2 h2 m2 r1 = Inr r2
           \<and> routes r2 = (routes r)(n \<mapsto> NewRoute n p2 h2 m2 [])
           \<and> routes r2 n = Some (Route n p2 h2 m2 [])
           \<and> trees (router r2)
               = trees (router r) @ [(Method_String m1, joinPaths ''/'' p1, Handlers (router r), h1),
                                     (Method_String m2, joinPaths ''/'' p2, Handlers (router r), h2)]
           \<and> errorHandlers r2 = errorHandlers r
           \<and> defaultHandler r2 = defaultHandler r
           \<and> middlewares r2 = middlewares r"
  using assms
  by (simp add: AddRoute_def NewRoute_def Handle_def group_Handle_def Let_def)

theorem AddRoute_last_write_wins_witness:
  "routes (projr (AddRoute gin_rejects ''user'' ''/users/:id/edit'' serverError Get
             (projr (AddRoute gin_rejects ''user'' ''/users/:id'' serverError Get NewRouter))))
       ''user''
     = Some (Route ''user'' ''/users/:id/edit'' serverError Get [])"
proof -
  have first: "\<not> gin_rejects (trees (router NewRouter)) (Method_String Get)
                  (joinPaths ''/'' ''/users/:id'')"
    by (simp add: gin_rejects_def NewRouter_def gin_New_def)
  have second: "\<not> gin_rejects
        (trees (router NewRouter)
           @ [(Method_String Get, joinPaths ''/'' ''/users/:id'', Handlers (router NewRouter),
               serverError)])
        (Method_String Get) (joinPaths ''/'' ''/users/:id/edit'')"
    by (simp add: gin_rejects_def NewRouter_def gin_New_def joinPaths_users_id
        joinPaths_users_id_edit not_conflicting_users_edit)
  from AddRoute_last_write_wins
    [of gin_rejects NewRouter Get "''/users/:id''" serverError Get "''/users/:id/edit''"
        "''user''" serverError, OF first second]
  obtain r1 r2 where "AddRoute gin_rejects ''user'' ''/users/:id'' serverError Get NewRouter = Inr r1"
    and "AddRoute gin_rejects ''user'' ''/users/:id/edit'' serverError Get r1 = Inr r2"
    and "routes r2 ''user'' = Some (Route ''user'' ''/users/:id/edit'' serverError Get [])"
    by blast
  then show ?thesis by simp
qed

text \<open>
  C7 as stated does not hold: after \<open>/users/:id\<close> the engine rejects \<open>/users/:name\<close>
  under the same method, a different pattern, and the second \<open>AddRoute\<close> panics instead
  of returning the router.
\<close>

theorem AddRoute_conflicting_pattern_panics:
  "AddRoute gin_rejects ''user'' ''/users/:id'' serverError Get NewRouter
     = Inr (NewRouter
         \<lparr>routes := [''user'' \<mapsto> Route ''user'' ''/users/:id'' serverError Get []],
          router := gin_New\<lparr>trees := [(''GET'', ''/users/:id'', [], serverError)]\<rparr>\<rparr>)
   \<and> AddRoute gin_rejects ''user'' ''/users/:name'' serverError Get
       (NewRouter
         \<lparr>routes := [''user'' \<mapsto> Route ''user'' ''/users/:id'' serverError Get []],
          router := gin_New\<lparr>trees := [(''GET'', ''/users/:id'', [], serverError)]\<rparr>\<rparr>)
     = Inl (Rejected ''GET'' ''/users/:name'')"
  by (simp add: AddRoute_def Handle_def group_Handle_def gin_rejects_def NewRouter_def
      NewRoute_def gin_New_def Let_def joinPaths_users_id joinPaths_users_name
      conflicting_users)

text \<open>
  C8, at the input where the code leaves the claim. The claim: a handler of two inputs
  whose second input is not a pointer to a struct stops the program with a panic. The
  guard of the source tests only that the second input is a pointer, while its message
  asks for a pointer to a struct: a handler that takes a pointer to an int passes the
  guard, and the wrapper binds and calls it, or answers 400, and never panics.
\<close>

theorem pointer_to_int_not_rejected:
  "createHandlerFunc ShouldBindUri (Handler n (FuncT [PtrT ContextT, PtrT IntT])) c
     = (case ShouldBindUri IntT (params c) of
          Some err \<Rightarrow> Responded (JSON 400 [(''error'', err)] c)
        | None \<Rightarrow> Invoked (Handler n (FuncT [PtrT ContextT, PtrT IntT]))
                   [ContextArg, BoundArg IntT])
   \<and> (\<forall>msg. createHandlerFunc ShouldBindUri (Handler n (FuncT [PtrT ContextT, PtrT IntT])) c
          \<noteq> Panicked msg)"
  by (simp split: option.splits)

text \<open>
  C9: for a name that the registry does not hold, \<open>GenerateUrlByName\<close> returns the empty
  URL and the error \<open>route with name <name> not found\<close>, whatever the parameters.
\<close>

theorem GenerateUrlByName_absent:
  "routes r n = None \<Longrightarrow>
   GenerateUrlByName pol r n ps
     = ([], Some (errors_New (''route with name '' @ n @ '' not found'')))"
  by (simp add: GenerateUrlByName_def)

theorem GenerateUrlByName_absent_witness:
  "routes NewRouter ''home'' = None \<and>
   GenerateUrlByName FailMissing NewRouter ''home'' Map.empty
     = ([], Some (errors_New ''route with name home not found''))"
  using GenerateUrlByName_absent [of NewRouter "''home''" FailMissing Map.empty]
  by (simp add: NewRouter_def)

text \<open>
  C10, as amended: a call of \<open>AddRouteList\<close> that returns, and in its tree a route that is
  owned by a list with a non-empty prefix and is followed, in the order of the walk, by no
  route of the same name. The registry then holds that very Route, with its own pattern,
  under its name; \<open>GenerateUrlByName\<close> for the name builds the URL from that pattern, so
  without the prefix; and the engine has the route under the prefix joined with the
  pattern.
\<close>

theorem registry_keeps_own_pattern:
  assumes "AddRouteList rejects l r = Inr r1"
    and "visits l = before @ (p, rt) # after"
    and "p \<noteq> []"
    and "\<forall>w \<in> set after. name (snd w) \<noteq> name rt"
  shows "routes r1 (name rt) = Some rt
         \<and> GenerateUrlByName pol r1 (name rt) ps = GenerateUrlByPattern pol (pattern rt) ps
         \<and> (Method_String (method_of rt), joinPaths (joinPaths ''/'' p) (pattern rt),
              Handlers (router r), handler rt)
             \<in> set (trees (router r1))"
proof -
  have walk: "visit_all rejects (before @ (p, rt) # after) r = Inr r1"
    using assms(1,2) by (simp add: AddRouteList_visits)
  have later: "\<forall>w \<in> set after. name (snd w) \<noteq> name (snd (p, rt))"
    unfolding snd_conv by (rule assms(4))
  have "routes r1 (name (snd (p, rt))) = Some (stored (p, rt))"
    using walk later by (rule routes_visit_all_last)
  with assms(3) have reg: "routes r1 (name rt) = Some rt"
    by (simp add: stored_def)
  have "registered (Handlers (router r)) (p, rt) \<in> set (trees (router r1))"
    using AddRouteList_trees [OF assms(1)] assms(2) by simp
  with assms(3) reg show ?thesis
    by (simp add: GenerateUrlByName_def Router_GenerateUrlByPattern_def registered_def)
qed

theorem registry_keeps_own_pattern_witness:
  "routes (projr (AddRouteList gin_rejects lr NewRouter)) ''v1:product''
     = Some (Route ''v1:product'' ''/:locale/products/:id'' productDetailHandler Get [])
   \<and> GenerateUrlByName FailMissing (projr (AddRouteList gin_rejects lr NewRouter)) ''v1:product''
        [''locale'' \<mapsto> StringV ''cs'', ''id'' \<mapsto> IntV 42]
      = (''/cs/products/42'', None)
   \<and> (''GET'', ''/v1/:locale/products/:id'', [], productDetailHandler)
        \<in> set (trees (router (projr (AddRouteList gin_rejects lr NewRouter))))"
proof -
  let ?rt = "Route ''v1:product'' ''/:locale/products/:id'' productDetailHandler Get []"
  let ?root = "Route ''product'' ''/:locale/products/:id'' productDetailHandler Get []"
  have walk: "visits lr = [([], ?root)] @ (''/v1'', ?rt) # []"
    by (simp add: lr_def v1_def)
  have "\<exists>r1. AddRouteList gin_rejects lr NewRouter = Inr r1"
    by (simp add: AddRouteList_visits walk visit_def add_listed_def AddRoute_def Handle_def
        createNativeRoute_def group_Handle_def Group_def gin_rejects_def NewRouter_def
        gin_New_def Let_def joinPaths_product joinPaths_v1 joinPaths_v1_product
        not_conflicting_product)
  then obtain r1 where returns: "AddRouteList gin_rejects lr NewRouter = Inr r1" ..
  then have result: "projr (AddRouteList gin_rejects lr NewRouter) = r1"
    by simp
  have none: "Handlers (router NewRouter) = []"
    by (simp add: NewRouter_def gin_New_def)
  have prefixed: "''/v1'' \<noteq> []"
    by simp
  have later: "\<forall>w \<in> set []. name (snd w) \<noteq> name ?rt"
    by simp
  from registry_keeps_own_pattern [OF returns walk prefixed later, of FailMissing
      "[''locale'' \<mapsto> StringV ''cs'', ''id'' \<mapsto> IntV 42]"]
  show ?thesis
    by (simp add: result none joinPaths_v1 joinPaths_v1_product GenerateUrlByPattern_product)
qed

text \<open>
  C10 as stated does not hold: of two routes with one name under the prefix \<open>/p\<close>, with
  the patterns \<open>/a\<close> and \<open>/b\<close>, the registry keeps the second; the first is not stored,
  and the URL for the name is built from \<open>/b\<close>.
\<close>

theorem earlier_route_of_same_name_not_kept:
  "AddRouteList gin_rejects same_name NewRouter
     = Inr (NewRouter
         \<lparr>router := gin_New\<lparr>trees := [(''GET'', ''/p/a'', [], serverError),
                                      (''GET'', ''/p/b'', [], serverError)]\<rparr>,
          routes := [''n'' \<mapsto> Route ''n'' ''/b'' serverError Get []]\<rparr>)
   \<and> GenerateUrlByName FailMissing
       (NewRouter
         \<lparr>router := gin_New\<lparr>trees := [(''GET'', ''/p/a'', [], serverError),
                                      (''GET'', ''/p/b'', [], serverError)]\<rparr>,
          routes := [''n'' \<mapsto> Route ''n'' ''/b'' serverError Get []]\<rparr>)
       ''n'' Map.empty
     = (''/b'', None)"
  by (simp add: same_name_def add_listed_def createNativeRoute_def group_Handle_def Group_def
      gin_rejects_def NewRouter_def gin_New_def Let_def joinPaths_p joinPaths_p_a joinPaths_p_b
      not_conflicting_p GenerateUrlByName_def Router_GenerateUrlByPattern_def
      GenerateUrlByPattern_def)

end
